theory Spec2Isabelle
  imports Complex_Main "HOL-Library.AList"
begin

section \<open>Data model of \<^verbatim>\<open>docker_service.py\<close>\<close>

text \<open>
  Exceptions are values. \<open>NotFound\<close> and \<open>APIError\<close> are the two classes of
  \<^verbatim>\<open>docker.errors\<close> that the service catches (\<open>NotFound\<close> is tested first, as in
  every \<^verbatim>\<open>except\<close> chain of the source); \<open>Exception\<close> is the plain
  \<^verbatim>\<open>Exception(msg)\<close> the service raises itself; \<open>ValueError\<close> is a failed tuple
  unpacking; \<open>AttributeError\<close> is a method call on \<^verbatim>\<open>None\<close>; \<open>OtherError\<close> stands
  for any other exception class the runtime client may raise. The string is
  \<^verbatim>\<open>str(e)\<close>.
\<close>

datatype py_exc =
    NotFound string
  | APIError string
  | Exception string
  | ValueError string
  | AttributeError string
  | OtherError string

text \<open>
  One entry of \<^verbatim>\<open>attrs['Mounts']\<close>. The keys \<^verbatim>\<open>Type\<close>, \<^verbatim>\<open>Source\<close> and
  \<^verbatim>\<open>Destination\<close> are subscripted by the source and are fields here; \<^verbatim>\<open>Mode\<close> is
  tested with \<^verbatim>\<open>'Mode' in mount\<close> and is optional.
\<close>

record mount =
  Type :: string
  Source :: string
  Destination :: string
  Mode :: "string option"

type_synonym ports = "(string \<times> string list) list"

text \<open>
  What the service reads of a container object returned by
  \<^verbatim>\<open>client.containers.get\<close>: \<^verbatim>\<open>name\<close>, \<^verbatim>\<open>status\<close> and, of \<^verbatim>\<open>attrs\<close>,
  \<^verbatim>\<open>Config.Image\<close>, \<^verbatim>\<open>Config.Env\<close>, \<^verbatim>\<open>Mounts\<close>, the keys of
  \<^verbatim>\<open>NetworkSettings.Networks\<close>, \<^verbatim>\<open>HostConfig.PortBindings\<close> and
  \<^verbatim>\<open>HostConfig.Binds\<close>. A field read with \<^verbatim>\<open>.get(key, default)\<close> is an option
  (\<open>None\<close>: the key is absent). The runtime reports \<^verbatim>\<open>Binds\<close> as \<^verbatim>\<open>null\<close> for a
  container without binds, and \<^verbatim>\<open>.get\<close> gives the default only for an absent key:
  \<open>Binds\<close> is \<open>None\<close> for the absent key, \<open>Some None\<close> for \<^verbatim>\<open>null\<close> and
  \<open>Some (Some bs)\<close> for a list.
\<close>

record container =
  name :: string
  status :: string
  Image :: string
  Env :: "string list option"
  Mounts :: "mount list option"
  Networks :: "string list"
  PortBindings :: "ports option"
  Binds :: "string list option option"

text \<open>
  The \<^verbatim>\<open>updates\<close> dictionary (\<^verbatim>\<open>ContainerUpdate.dict(exclude_none=True)\<close>): each of
  the five keys is present or absent.
\<close>

record updates =
  u_image :: "string option"
  u_environment :: "string list option"
  u_volumes :: "string list option"
  u_networks :: "string list option"
  u_ports :: "ports option"

text \<open>
  The local variables of \<^verbatim>\<open>update_container\<close> after lines 200--227. The dictionary
  \<^verbatim>\<open>volumes\<close> maps a destination to \<^verbatim>\<open>{}\<close>; it is an association list in
  insertion order with unit values.
\<close>

record config =
  cfg_image :: string
  cfg_environment :: "string list"
  cfg_volumes :: "(string \<times> unit) list"
  cfg_binds :: "string list"
  cfg_networks :: "string list"
  cfg_ports :: ports

section \<open>Bind strings\<close>

text \<open>Python's \<^verbatim>\<open>s.split(':')\<close>: the segments between the colons, at least one.\<close>

fun split_colon :: "string \<Rightarrow> string list" where
  "split_colon [] = [[]]"
| "split_colon (c # cs) =
     (if c = CHR '':'' then [] # split_colon cs
      else (case split_colon cs of
              [] \<Rightarrow> [[c]]
            | w # ws \<Rightarrow> (c # w) # ws))"

text \<open>
  Lines 217--219: the bind string of a mount, with the mode segment whenever the
  mount has a \<^verbatim>\<open>Mode\<close> key.
\<close>

definition encode_mount :: "mount \<Rightarrow> string" where
  "encode_mount m =
     (let bind_str = Source m @ '':'' @ Destination m
      in case Mode m of
           Some md \<Rightarrow> bind_str @ '':'' @ md
         | None \<Rightarrow> bind_str)"

text \<open>Line 604: the bind string built by \<^verbatim>\<open>attach_volume_to_container\<close>.\<close>

definition attach_bind :: "string \<Rightarrow> string \<Rightarrow> string \<Rightarrow> string" where
  "attach_bind volume_name mount_point mode =
     volume_name @ '':'' @ mount_point @ '':'' @ mode"

text \<open>
  Lines 209--210: \<^verbatim>\<open>if ':' in vol: source, dest = vol.split(':')[:2]\<close>. An entry
  without a colon is not decoded (\<open>None\<close>); the unpacking of a slice that has not two
  elements raises \<^verbatim>\<open>ValueError\<close>.
\<close>

definition decode_bind :: "string \<Rightarrow> (py_exc + string \<times> string) option" where
  "decode_bind vol =
     (if CHR '':'' \<in> set vol then
        (case take 2 (split_colon vol) of
           [source, dest] \<Rightarrow> Some (Inr (source, dest))
         | _ \<Rightarrow> Some (Inl (ValueError ''not enough values to unpack'')))
      else None)"

text \<open>Lines 207--212: the loop over \<^verbatim>\<open>updates['volumes']\<close>.\<close>

fun volumes_from_updates ::
  "string list \<Rightarrow> (string \<times> unit) list \<times> string list
     \<Rightarrow> py_exc + (string \<times> unit) list \<times> string list" where
  "volumes_from_updates [] (volumes, binds) = Inr (volumes, binds)"
| "volumes_from_updates (vol # rest) (volumes, binds) =
     (case decode_bind vol of
        None \<Rightarrow> volumes_from_updates rest (volumes, binds)
      | Some (Inl e) \<Rightarrow> Inl e
      | Some (Inr (source, dest)) \<Rightarrow>
          volumes_from_updates rest (AList.update dest () volumes, binds @ [vol]))"

text \<open>Lines 214--221: the loop over the mounts of the old container.\<close>

fun volumes_from_mounts ::
  "mount list \<Rightarrow> (string \<times> unit) list \<times> string list
     \<Rightarrow> (string \<times> unit) list \<times> string list" where
  "volumes_from_mounts [] (volumes, binds) = (volumes, binds)"
| "volumes_from_mounts (m # rest) (volumes, binds) =
     (if Type m = ''bind''
      then volumes_from_mounts rest
             (AList.update (Destination m) () volumes, binds @ [encode_mount m])
      else volumes_from_mounts rest (volumes, binds))"

definition get_or :: "'a option \<Rightarrow> 'a \<Rightarrow> 'a" where
  "get_or v d = (case v of Some x \<Rightarrow> x | None \<Rightarrow> d)"

text \<open>Lines 200--227 of \<^verbatim>\<open>update_container\<close>.\<close>

definition target_config :: "container \<Rightarrow> updates \<Rightarrow> py_exc + config" where
  "target_config old upd =
     (let image = get_or (u_image upd) (Image old);
          environment = get_or (u_environment upd) (get_or (Env old) [])
      in case (case u_volumes upd of
                 Some vols \<Rightarrow> volumes_from_updates vols ([], [])
               | None \<Rightarrow> Inr (volumes_from_mounts (get_or (Mounts old) []) ([], []))) of
           Inl e \<Rightarrow> Inl e
         | Inr (volumes, binds) \<Rightarrow>
             Inr \<lparr> cfg_image = image,
                   cfg_environment = environment,
                   cfg_volumes = volumes,
                   cfg_binds = binds,
                   cfg_networks = get_or (u_networks upd) (Networks old),
                   cfg_ports = get_or (u_ports upd) (get_or (PortBindings old) []) \<rparr>)"

section \<open>The runtime client\<close>

text \<open>
  The arguments of \<^verbatim>\<open>client.containers.run\<close> (lines 234--242; \<^verbatim>\<open>detach=True\<close> is
  constant) and of \<^verbatim>\<open>client.containers.create\<close> (lines 607--614). docker-py's
  \<^verbatim>\<open>run\<close> creates the container and starts it; \<^verbatim>\<open>create\<close> only creates it.
\<close>

record run_args =
  run_image :: string
  run_name :: string
  run_environment :: "string list"
  run_volumes :: "(string \<times> unit) list option"
  run_ports :: "ports option"
  run_network :: "string option"

record create_args =
  create_image :: string
  create_name :: string
  create_environment :: "string list"
  create_ports :: ports
  create_volumes :: "(string \<times> unit) list"
  create_binds :: "string list"

text \<open>
  The calls the two recreation methods issue to the runtime. \<open>Stop\<close> and \<open>Remove\<close>
  act on the old container, \<open>Start\<close> and \<open>NetConnect\<close> on the new one.
\<close>

datatype call =
    ContainersGet string
  | Stop
  | Remove
  | Run run_args
  | Create create_args
  | Start
  | NetworksGet string
  | NetConnect string

text \<open>
  The runtime is outside the program: \<open>containers_get\<close> answers the first call with a
  container or an exception; \<open>respond\<close> says, from the calls issued so far and the next
  call, whether that call raises. Each method returns the list of calls it issued,
  in order, with its result.
\<close>

record runtime =
  containers_get :: "string \<Rightarrow> py_exc + container"
  respond :: "call list \<Rightarrow> call \<Rightarrow> py_exc option"

type_synonym payload = "(string \<times> string) list"

section \<open>\<^verbatim>\<open>update_container\<close>\<close>

text \<open>Lines 253--256: the two \<^verbatim>\<open>except\<close> clauses; anything else propagates.\<close>

definition update_container_except :: "string \<Rightarrow> py_exc \<Rightarrow> py_exc" where
  "update_container_except container_id e =
     (case e of
        NotFound _ \<Rightarrow> Exception (''Container '' @ container_id @ '' not found'')
      | APIError msg \<Rightarrow> Exception (''Failed to update container: '' @ msg)
      | _ \<Rightarrow> e)"

text \<open>Lines 234--242: the keyword arguments of the \<^verbatim>\<open>run\<close> call.\<close>

definition run_args_of :: "container \<Rightarrow> config \<Rightarrow> run_args" where
  "run_args_of old cfg =
     \<lparr> run_image = cfg_image cfg,
       run_name = name old,
       run_environment = cfg_environment cfg,
       run_volumes = (if cfg_volumes cfg \<noteq> [] then Some (cfg_volumes cfg) else None),
       run_ports = (if cfg_ports cfg \<noteq> [] then Some (cfg_ports cfg) else None),
       run_network = (case cfg_networks cfg of [] \<Rightarrow> None | n # _ \<Rightarrow> Some n) \<rparr>"

text \<open>
  Lines 245--250: the loop over \<^verbatim>\<open>networks[1:]\<close>; \<^verbatim>\<open>except Exception: pass\<close>
  discards a failure of either call and goes on with the next network.
\<close>

fun connect_networks :: "runtime \<Rightarrow> call list \<Rightarrow> string list \<Rightarrow> call list" where
  "connect_networks rt tr [] = tr"
| "connect_networks rt tr (network # rest) =
     (case respond rt tr (NetworksGet network) of
        Some e \<Rightarrow> connect_networks rt (tr @ [NetworksGet network]) rest
      | None \<Rightarrow>
          (case respond rt (tr @ [NetworksGet network]) (NetConnect network) of
             Some e \<Rightarrow>
               connect_networks rt (tr @ [NetworksGet network, NetConnect network]) rest
           | None \<Rightarrow>
               connect_networks rt (tr @ [NetworksGet network, NetConnect network]) rest))"

definition update_container ::
  "runtime \<Rightarrow> string \<Rightarrow> updates \<Rightarrow> call list \<times> (py_exc + payload)" where
  "update_container rt container_id upd =
     (let t0 = [ContainersGet container_id]
      in case containers_get rt container_id of
           Inl e \<Rightarrow> (t0, Inl (update_container_except container_id e))
         | Inr old_container \<Rightarrow>
        (case target_config old_container upd of
           Inl e \<Rightarrow> (t0, Inl (update_container_except container_id e))
         | Inr cfg \<Rightarrow>
        (case respond rt t0 Stop of
           Some e \<Rightarrow> (t0 @ [Stop], Inl (update_container_except container_id e))
         | None \<Rightarrow>
        (case respond rt (t0 @ [Stop]) Remove of
           Some e \<Rightarrow> (t0 @ [Stop, Remove], Inl (update_container_except container_id e))
         | None \<Rightarrow>
        (let run = Run (run_args_of old_container cfg)
         in case respond rt (t0 @ [Stop, Remove]) run of
              Some e \<Rightarrow>
                (t0 @ [Stop, Remove, run], Inl (update_container_except container_id e))
            | None \<Rightarrow>
                (connect_networks rt (t0 @ [Stop, Remove, run]) (drop 1 (cfg_networks cfg)),
                 Inr [(''status'', ''success''),
                      (''message'', ''Container '' @ container_id @ '' updated and recreated'')]))))))"

section \<open>\<^verbatim>\<open>attach_volume_to_container\<close>\<close>

text \<open>Lines 620--623.\<close>

definition attach_volume_except :: "py_exc \<Rightarrow> py_exc" where
  "attach_volume_except e =
     (case e of
        NotFound _ \<Rightarrow> Exception ''Container or volume not found''
      | APIError msg \<Rightarrow> Exception (''Failed to attach volume: '' @ msg)
      | _ \<Rightarrow> e)"

text \<open>
  Lines 601--614: the binds and the arguments of the \<^verbatim>\<open>create\<close> call.
  \<^verbatim>\<open>host_config.get('Binds', [])\<close> is \<^verbatim>\<open>None\<close> when the key holds \<^verbatim>\<open>null\<close>, and
  \<^verbatim>\<open>binds.append\<close> on it raises \<^verbatim>\<open>AttributeError\<close>.
\<close>

definition create_args_of ::
  "container \<Rightarrow> string \<Rightarrow> string \<Rightarrow> string \<Rightarrow> py_exc + create_args" where
  "create_args_of c volume_name mount_point mode =
     (case get_or (Binds c) (Some []) of
        None \<Rightarrow> Inl (AttributeError ''NoneType object has no attribute append'')
      | Some old_binds \<Rightarrow>
          (let binds = old_binds @ [attach_bind volume_name mount_point mode]
           in Inr \<lparr> create_image = Image c,
                    create_name = name c,
                    create_environment = get_or (Env c) [],
                    create_ports = get_or (PortBindings c) [],
                    create_volumes = [(mount_point, ())],
                    create_binds = binds \<rparr>))"

definition attach_volume_to_container ::
  "runtime \<Rightarrow> string \<Rightarrow> string \<Rightarrow> string \<Rightarrow> string \<Rightarrow> call list \<times> (py_exc + payload)" where
  "attach_volume_to_container rt container_id volume_name mount_point mode =
     (let t0 = [ContainersGet container_id]
      in case containers_get rt container_id of
           Inl e \<Rightarrow> (t0, Inl (attach_volume_except e))
         | Inr c \<Rightarrow>
        (if list_ex (\<lambda>m. Source m = volume_name) (get_or (Mounts c) [])
         then (t0, Inl (attach_volume_except
                 (Exception (''Volume '' @ volume_name @
                             '' is already attached to this container''))))
         else
        (let was_running = (status c = ''running'');
             t1 = (if was_running then t0 @ [Stop] else t0)
         in case (if was_running then respond rt t0 Stop else None) of
              Some e \<Rightarrow> (t1, Inl (attach_volume_except e))
            | None \<Rightarrow>
        (case respond rt t1 Remove of
           Some e \<Rightarrow> (t1 @ [Remove], Inl (attach_volume_except e))
         | None \<Rightarrow>
        (case create_args_of c volume_name mount_point mode of
           Inl e \<Rightarrow> (t1 @ [Remove], Inl (attach_volume_except e))
         | Inr args \<Rightarrow>
        (let create = Create args
         in case respond rt (t1 @ [Remove]) create of
              Some e \<Rightarrow> (t1 @ [Remove, create], Inl (attach_volume_except e))
            | None \<Rightarrow>
        (if was_running
         then (case respond rt (t1 @ [Remove, create]) Start of
                 Some e \<Rightarrow> (t1 @ [Remove, create, Start], Inl (attach_volume_except e))
               | None \<Rightarrow>
                   (t1 @ [Remove, create, Start],
                    Inr [(''status'', ''success''),
                         (''message'', ''Volume '' @ volume_name @ '' attached to container'')]))
         else (t1 @ [Remove, create],
               Inr [(''status'', ''success''),
                    (''message'', ''Volume '' @ volume_name @ '' attached to container'')]))))))))"

section \<open>\<^verbatim>\<open>get_system_info\<close>\<close>

text \<open>
  What lines 44--54 read of the dictionary returned by
  \<^verbatim>\<open>container.stats(stream=False)\<close>. A subscripted path is an option whose \<open>None\<close>
  raises \<^verbatim>\<open>KeyError\<close>; \<^verbatim>\<open>percpu_usage\<close> and the \<^verbatim>\<open>usage\<close> inside
  \<^verbatim>\<open>memory_stats\<close> are read with \<^verbatim>\<open>.get\<close> and have a default. The runtime's
  answer also holds the number of online CPUs, \<^verbatim>\<open>cpu_stats.online_cpus\<close>; no line of
  the source reads it, and it is a field here for the comparison with the
  specification's sample only. Python's integers are unbounded (\<open>int\<close>); its floats
  are taken as exact reals, so rounding is outside this model.
\<close>

record stats =
  cpu_total_usage :: "int option"
  precpu_total_usage :: "int option"
  system_cpu_usage :: "int option"
  precpu_system_cpu_usage :: "int option"
  percpu_usage :: "int list option"
  online_cpus :: "int option"
  memory_stats :: "int option option"

text \<open>A container of \<^verbatim>\<open>client.containers.list(all=True)\<close>: its status and what its
  \<^verbatim>\<open>stats\<close> call gives.\<close>

record listed =
  l_status :: string
  l_stats :: "py_exc + stats"

text \<open>Python's \<^verbatim>\<open>str.lower\<close> on ASCII letters.\<close>

definition lower_char :: "char \<Rightarrow> char" where
  "lower_char c =
     (if 65 \<le> (of_char c :: nat) \<and> (of_char c :: nat) \<le> 90
      then char_of ((of_char c :: nat) + 32) else c)"

definition lower :: "string \<Rightarrow> string" where
  "lower s = map lower_char s"

text \<open>The three accumulators of the loop of lines 28--56.\<close>

record totals =
  status_counts :: "string \<rightharpoonup> int"
  total_cpu :: real
  total_memory :: int

text \<open>
  Lines 41--56, the \<^verbatim>\<open>try\<close> block on a running container. An exception anywhere in
  it ends the block (\<^verbatim>\<open>except Exception: pass\<close>) and keeps what was added before.
  The factor of line 50 is
  \<^verbatim>\<open>len(stats['cpu_stats']['cpu_usage'].get('percpu_usage', [1]))\<close>.
\<close>

definition add_usage :: "py_exc + stats \<Rightarrow> totals \<Rightarrow> totals" where
  "add_usage r acc =
     (case r of
        Inl e \<Rightarrow> acc
      | Inr st \<Rightarrow>
     (case (cpu_total_usage st, precpu_total_usage st) of
        (Some cur_cpu, Some pre_cpu) \<Rightarrow>
     (case (system_cpu_usage st, precpu_system_cpu_usage st) of
        (Some cur_sys, Some pre_sys) \<Rightarrow>
          (let cpu_delta = cur_cpu - pre_cpu;
               system_delta = cur_sys - pre_sys;
               acc1 = (if system_delta > 0
                       then acc\<lparr>total_cpu := total_cpu acc +
                              (real_of_int cpu_delta / real_of_int system_delta) *
                                real (length (get_or (percpu_usage st) [1])) * 100\<rparr>
                       else acc)
           in case memory_stats st of
                None \<Rightarrow> acc1
              | Some usage \<Rightarrow> acc1\<lparr>total_memory := total_memory acc1 + get_or usage 0\<rparr>)
      | _ \<Rightarrow> acc)
      | _ \<Rightarrow> acc))"

text \<open>Lines 33--37: the status bucket of one container.\<close>

definition count_status :: "string \<Rightarrow> (string \<rightharpoonup> int) \<Rightarrow> (string \<rightharpoonup> int)" where
  "count_status st counts =
     (case counts st of
        Some n \<Rightarrow> counts(st \<mapsto> n + 1)
      | None \<Rightarrow> counts(''other'' \<mapsto> the (counts ''other'') + 1))"

text \<open>Lines 32--56: the loop body and the loop.\<close>

definition scan_container :: "listed \<Rightarrow> totals \<Rightarrow> totals" where
  "scan_container c acc =
     (let st = lower (l_status c);
          acc1 = acc\<lparr>status_counts := count_status st (status_counts acc)\<rparr>
      in if st = ''running'' then add_usage (l_stats c) acc1 else acc1)"

fun scan_containers :: "listed list \<Rightarrow> totals \<Rightarrow> totals" where
  "scan_containers [] acc = acc"
| "scan_containers (c # cs) acc = scan_containers cs (scan_container c acc)"

text \<open>Lines 28--30.\<close>

definition initial_totals :: totals where
  "initial_totals =
     \<lparr> status_counts = [''running'' \<mapsto> 0, ''exited'' \<mapsto> 0, ''stopped'' \<mapsto> 0,
                         ''created'' \<mapsto> 0, ''paused'' \<mapsto> 0, ''other'' \<mapsto> 0],
       total_cpu = 0,
       total_memory = 0 \<rparr>"

text \<open>
  The container part of the dictionary returned at lines 61--77 (the image, volume,
  network, version and disk-usage entries come from other runtime calls; the two
  rounded floats are left out).
\<close>

record system_info =
  containers_running :: int
  containers_stopped :: int
  containers_exited :: int
  containers_created :: int
  containers_paused :: int
  containers_total :: int
  total_memory_bytes :: int

definition get_system_info :: "listed list \<Rightarrow> system_info" where
  "get_system_info containers =
     (let acc = scan_containers containers initial_totals
      in \<lparr> containers_running = the (status_counts acc ''running''),
           containers_stopped = the (status_counts acc ''stopped''),
           containers_exited = the (status_counts acc ''exited''),
           containers_created = the (status_counts acc ''created''),
           containers_paused = the (status_counts acc ''paused''),
           containers_total = int (length containers),
           total_memory_bytes = total_memory acc \<rparr>)"

section \<open>Concrete inputs\<close>

text \<open>A bind mount of the host directory \<^verbatim>\<open>/host\<close> at \<^verbatim>\<open>/data\<close>.\<close>

definition host_data :: "string option \<Rightarrow> mount" where
  "host_data md =
     \<lparr> Type = ''bind'', Source = ''/host'', Destination = ''/data'', Mode = md \<rparr>"

text \<open>A running web server with the bind mount, one network and one published port.\<close>

definition web1 :: container where
  "web1 =
     \<lparr> name = ''web-1'', status = ''running'', Image = ''nginx:1.25'',
       Env = Some [''MODE=prod''], Mounts = Some [host_data (Some ''rw'')],
       Networks = [''frontend''], PortBindings = Some [(''80/tcp'', [''8080''])],
       Binds = Some (Some [''/host:/data:rw'']) \<rparr>"

text \<open>The same container after it has exited.\<close>

definition web1_exited :: container where
  "web1_exited = web1\<lparr>status := ''exited''\<rparr>"

text \<open>A database whose only mount is a named volume.\<close>

definition db1 :: container where
  "db1 =
     \<lparr> name = ''db-1'', status = ''running'', Image = ''postgres:16'',
       Env = Some [''POSTGRES_DB=app''],
       Mounts = Some [\<lparr> Type = ''volume'',
                        Source = ''/var/lib/docker/volumes/dbdata/_data'',
                        Destination = ''/var/lib/postgresql/data'', Mode = Some ''z'' \<rparr>],
       Networks = [''backend''], PortBindings = None, Binds = Some None \<rparr>"

definition no_updates :: updates where
  "no_updates =
     \<lparr> u_image = None, u_environment = None, u_volumes = None, u_networks = None,
       u_ports = None \<rparr>"

definition two_more_networks :: updates where
  "two_more_networks =
     no_updates\<lparr>u_networks := Some [''frontend'', ''backend'', ''metrics'']\<rparr>"

definition image_and_volumes :: updates where
  "image_and_volumes =
     no_updates\<lparr>u_image := Some ''nginx:1.26'',
                u_volumes := Some [''/srv:/www:ro'', ''data'']\<rparr>"

text \<open>What lines 200--227 compute for \<open>web1\<close> and no update, and the \<^verbatim>\<open>run\<close> call
  that follows.\<close>

definition web1_config :: config where
  "web1_config =
     \<lparr> cfg_image = ''nginx:1.25'', cfg_environment = [''MODE=prod''],
       cfg_volumes = [(''/data'', ())], cfg_binds = [''/host:/data:rw''],
       cfg_networks = [''frontend''], cfg_ports = [(''80/tcp'', [''8080''])] \<rparr>"

definition web1_run :: call where
  "web1_run =
     Run \<lparr> run_image = ''nginx:1.25'', run_name = ''web-1'',
           run_environment = [''MODE=prod''], run_volumes = Some [(''/data'', ())],
           run_ports = Some [(''80/tcp'', [''8080''])], run_network = Some ''frontend'' \<rparr>"

text \<open>A runtime that finds the container \<open>c\<close> under every id and never fails.\<close>

definition rt_ok :: "container \<Rightarrow> runtime" where
  "rt_ok c = \<lparr> containers_get = (\<lambda>container_id. Inr c), respond = (\<lambda>tr c. None) \<rparr>"

text \<open>A runtime that finds \<open>c\<close> and fails exactly the calls that \<open>fails\<close> selects, with
  an \<open>APIError\<close>.\<close>

definition rt_failing :: "container \<Rightarrow> (call \<Rightarrow> bool) \<Rightarrow> runtime" where
  "rt_failing c fails =
     \<lparr> containers_get = (\<lambda>container_id. Inr c),
       respond = (\<lambda>tr call. if fails call then Some (APIError ''simulated'') else None) \<rparr>"

definition is_run :: "call \<Rightarrow> bool" where
  "is_run c = (case c of Run a \<Rightarrow> True | _ \<Rightarrow> False)"

definition is_networks_get :: "call \<Rightarrow> bool" where
  "is_networks_get c = (case c of NetworksGet n \<Rightarrow> True | _ \<Rightarrow> False)"

text \<open>
  The sample pair of the specification's example, with two CPUs, and the same pair
  with a system counter that did not advance.
\<close>

definition sample :: stats where
  "sample =
     \<lparr> cpu_total_usage = Some 1500, precpu_total_usage = Some 1000,
       system_cpu_usage = Some 100500, precpu_system_cpu_usage = Some 100000,
       percpu_usage = Some [750, 750], online_cpus = Some 2,
       memory_stats = Some (Some 4096) \<rparr>"

definition stale_sample :: stats where
  "stale_sample = sample\<lparr>system_cpu_usage := Some 100000\<rparr>"

text \<open>The same pair as the runtime reports it on a host with two online CPUs and no
  per-CPU usage list.\<close>

definition no_percpu_sample :: stats where
  "no_percpu_sample = sample\<lparr>percpu_usage := None\<rparr>"

text \<open>Four containers: one running, one exited, two in states without a bucket of
  their own.\<close>

definition fleet :: "listed list" where
  "fleet =
     [\<lparr> l_status = ''running'', l_stats = Inr sample \<rparr>,
      \<lparr> l_status = ''Exited'', l_stats = Inl (APIError ''not running'') \<rparr>,
      \<lparr> l_status = ''restarting'', l_stats = Inl (APIError ''not running'') \<rparr>,
      \<lparr> l_status = ''dead'', l_stats = Inl (APIError ''not running'') \<rparr>]"

section \<open>The status buckets\<close>

text \<open>The keys of \<^verbatim>\<open>status_counts\<close> (line 28), the bucket in which lines 34--37
  count a status, and the sum of the six counters.\<close>

definition status_keys :: "string list" where
  "status_keys = [''running'', ''exited'', ''stopped'', ''created'', ''paused'', ''other'']"

definition status_bucket :: "string \<Rightarrow> string" where
  "status_bucket st = (if st \<in> set status_keys then st else ''other'')"

definition bucket_sum :: "(string \<rightharpoonup> int) \<Rightarrow> int" where
  "bucket_sum counts =
     the (counts ''running'') + the (counts ''stopped'') + the (counts ''exited'') +
     the (counts ''created'') + the (counts ''paused'') + the (counts ''other'')"

section \<open>The CPU percentage as the specification words it\<close>

text \<open>The specification's StatSample.\<close>

record stat_sample =
  s_cpu_total_usage :: int
  s_system_cpu_usage :: int
  s_online_cpu_count :: nat
  s_memory_usage_bytes :: int

text \<open>The specification's formula for a pair of samples of one container.\<close>

definition spec_cpu_percent :: "stat_sample \<Rightarrow> stat_sample \<Rightarrow> real" where
  "spec_cpu_percent prev cur =
     (let cpuDelta = s_cpu_total_usage cur - s_cpu_total_usage prev;
          systemDelta = s_system_cpu_usage cur - s_system_cpu_usage prev
      in if systemDelta > 0
         then (real_of_int cpuDelta / real_of_int systemDelta) *
                real (s_online_cpu_count cur) * 100
         else 0)"

text \<open>The pair of the specification's example.\<close>

definition example_prev :: stat_sample where
  "example_prev =
     \<lparr> s_cpu_total_usage = 1000, s_system_cpu_usage = 100000, s_online_cpu_count = 2,
       s_memory_usage_bytes = 4096 \<rparr>"

definition example_cur :: stat_sample where
  "example_cur =
     \<lparr> s_cpu_total_usage = 1500, s_system_cpu_usage = 100500, s_online_cpu_count = 2,
       s_memory_usage_bytes = 4096 \<rparr>"

section \<open>The merge as the specification words it\<close>

text \<open>
  The specification's ContainerSpec, with the mounts as bind strings: the form in
  which a patch gives them and in which line 217 writes those of the old container.
\<close>

record container_spec =
  spec_image :: string
  spec_environment :: "string list"
  spec_mounts :: "string list"
  spec_networks :: "string list"
  spec_ports :: ports

text \<open>The specification's snapshot: the declared configuration as the runtime stores
  it, every mount included.\<close>

definition spec_snapshot :: "container \<Rightarrow> container_spec" where
  "spec_snapshot c =
     \<lparr> spec_image = Image c,
       spec_environment = get_or (Env c) [],
       spec_mounts = map encode_mount (get_or (Mounts c) []),
       spec_networks = Networks c,
       spec_ports = get_or (PortBindings c) [] \<rparr>"

text \<open>The specification's merge: for each field the patch's value if present, else the
  base's value.\<close>

definition spec_merge :: "container_spec \<Rightarrow> updates \<Rightarrow> container_spec" where
  "spec_merge base patch =
     \<lparr> spec_image = get_or (u_image patch) (spec_image base),
       spec_environment = get_or (u_environment patch) (spec_environment base),
       spec_mounts = get_or (u_volumes patch) (spec_mounts base),
       spec_networks = get_or (u_networks patch) (spec_networks base),
       spec_ports = get_or (u_ports patch) (spec_ports base) \<rparr>"

text \<open>The five fields of the configuration that the code computes.\<close>

definition config_spec :: "config \<Rightarrow> container_spec" where
  "config_spec cfg =
     \<lparr> spec_image = cfg_image cfg,
       spec_environment = cfg_environment cfg,
       spec_mounts = cfg_binds cfg,
       spec_networks = cfg_networks cfg,
       spec_ports = cfg_ports cfg \<rparr>"

section \<open>Splitting and decoding bind strings\<close>

lemma split_colon_nonempty: "split_colon s \<noteq> []"
  by (induction s) (auto split: list.splits)

lemma split_colon_no_colon: "CHR '':'' \<notin> set s \<Longrightarrow> split_colon s = [s]"
  by (induction s) auto

lemma split_colon_append:
  "CHR '':'' \<notin> set a \<Longrightarrow> split_colon (a @ CHR '':'' # r) = a # split_colon r"
  by (induction a) auto

lemma length_split_colon: "length (split_colon s) = Suc (count_list s (CHR '':''))"
  by (induction s) (auto split: list.splits simp: split_colon_nonempty)

lemma count_list_0_iff_notin: "count_list s c = 0 \<longleftrightarrow> c \<notin> set s"
  by (induction s) auto

lemma segments_lt_2_iff: "length (split_colon s) < 2 \<longleftrightarrow> CHR '':'' \<notin> set s"
  by (simp add: length_split_colon count_list_0_iff_notin)

text \<open>The tuple unpacking of line 210 never fails: behind the guard the split has
  two segments or more.\<close>

lemma decode_bind_no_error: "decode_bind vol \<noteq> Some (Inl e)"
proof (cases "CHR '':'' \<in> set vol")
  case True
  then have "2 \<le> length (split_colon vol)"
    using segments_lt_2_iff [of vol] by simp
  then obtain a b r where "split_colon vol = a # b # r"
    by (cases "split_colon vol"; cases "tl (split_colon vol)") auto
  then show ?thesis using True by (simp add: decode_bind_def)
next
  case False
  then show ?thesis by (simp add: decode_bind_def)
qed

lemma decode_bind_None_iff: "decode_bind vol = None \<longleftrightarrow> CHR '':'' \<notin> set vol"
  by (auto simp: decode_bind_def split: list.splits)

section \<open>The mount translation (C8)\<close>

text \<open>
  C8, as amended. For every mount whose source and destination contain no colon,
  decoding the bind string that the code builds for it (by \<open>encode_mount\<close>, and by
  \<open>attach_bind\<close> with any mode) gives back the source and the destination, and only
  these: the decoder keeps the first two segments and drops the mode. The encoder
  appends the mode segment whenever the mount has a \<^verbatim>\<open>Mode\<close> entry, whatever its
  value, and leaves it out only when the entry is absent.
\<close>

theorem mount_roundtrip:
  assumes "CHR '':'' \<notin> set (Source m)" and "CHR '':'' \<notin> set (Destination m)"
  shows "decode_bind (encode_mount m) = Some (Inr (Source m, Destination m)) \<and>
         decode_bind (attach_bind (Source m) (Destination m) mode) =
           Some (Inr (Source m, Destination m)) \<and>
         encode_mount m =
           (case Mode m of
              None \<Rightarrow> Source m @ '':'' @ Destination m
            | Some md \<Rightarrow> Source m @ '':'' @ Destination m @ '':'' @ md)"
proof -
  have two: "take 2 (split_colon (Source m @ CHR '':'' # Destination m @ CHR '':'' # x)) =
      [Source m, Destination m]" for x
    using assms by (simp add: split_colon_append)
  have one: "take 2 (split_colon (Source m @ CHR '':'' # Destination m)) =
      [Source m, Destination m]"
    using assms by (simp add: split_colon_append split_colon_no_colon)
  have enc: "decode_bind (encode_mount m) = Some (Inr (Source m, Destination m))"
    using one two by (cases "Mode m") (simp_all add: decode_bind_def encode_mount_def)
  have att: "decode_bind (attach_bind (Source m) (Destination m) mode) =
       Some (Inr (Source m, Destination m))"
    using two by (simp add: decode_bind_def attach_bind_def)
  have shape: "encode_mount m =
       (case Mode m of
          None \<Rightarrow> Source m @ '':'' @ Destination m
        | Some md \<Rightarrow> Source m @ '':'' @ Destination m @ '':'' @ md)"
    by (simp add: encode_mount_def split: option.splits)
  from enc att shape show ?thesis by blast
qed

theorem mount_roundtrip_witness:
  "decode_bind (encode_mount (host_data (Some ''ro''))) = Some (Inr (''/host'', ''/data'')) \<and>
   decode_bind (attach_bind ''/host'' ''/data'' ''rw'') = Some (Inr (''/host'', ''/data'')) \<and>
   encode_mount (host_data (Some ''ro'')) = ''/host:/data:ro''"
proof -
  have s: "CHR '':'' \<notin> set (Source (host_data (Some ''ro'')))"
    by (simp add: host_data_def)
  have d: "CHR '':'' \<notin> set (Destination (host_data (Some ''ro'')))"
    by (simp add: host_data_def)
  from mount_roundtrip [OF s d, of "''rw''"]
  have "decode_bind (encode_mount (host_data (Some ''ro''))) =
          Some (Inr (Source (host_data (Some ''ro'')), Destination (host_data (Some ''ro'')))) \<and>
        decode_bind (attach_bind (Source (host_data (Some ''ro'')))
          (Destination (host_data (Some ''ro''))) ''rw'') =
          Some (Inr (Source (host_data (Some ''ro'')), Destination (host_data (Some ''ro''))))"
    by blast
  moreover have "encode_mount (host_data (Some ''ro'')) = ''/host:/data:ro''"
    by (simp add: host_data_def encode_mount_def)
  ultimately show ?thesis by (simp add: host_data_def)
qed

text \<open>
  The claim as written fails twice on the code. The encoder does not omit the mode
  segment of a read-write mount: \<^verbatim>\<open>/host:/data:rw\<close> keeps it, and line 604 always
  writes it. The decoder does not give the descriptor back: a read-only and a
  read-write mount of the same directories are different descriptors with the same
  decoding.
\<close>

theorem mount_roundtrip_counterexample:
  "encode_mount (host_data (Some ''rw'')) = ''/host:/data:rw'' \<and>
   attach_bind ''dbdata'' ''/var/lib/db'' ''rw'' = ''dbdata:/var/lib/db:rw'' \<and>
   host_data (Some ''ro'') \<noteq> host_data (Some ''rw'') \<and>
   decode_bind (encode_mount (host_data (Some ''ro''))) =
     decode_bind (encode_mount (host_data (Some ''rw'')))"
  by (simp add: host_data_def encode_mount_def attach_bind_def decode_bind_def)

section \<open>The volume loops of \<^verbatim>\<open>update_container\<close>\<close>

lemma volumes_from_updates_append:
  "volumes_from_updates (xs @ ys) acc =
     (case volumes_from_updates xs acc of
        Inl e \<Rightarrow> Inl e
      | Inr acc' \<Rightarrow> volumes_from_updates ys acc')"
proof (induction xs arbitrary: acc)
  case Nil
  show ?case by (cases acc) simp
next
  case (Cons x xs)
  show ?case
    by (cases acc) (simp add: Cons.IH split: option.splits sum.splits prod.splits)
qed

lemma volumes_from_updates_skip:
  "CHR '':'' \<notin> set vol \<Longrightarrow>
     volumes_from_updates (vol # rest) acc = volumes_from_updates rest acc"
  by (cases acc) (simp add: decode_bind_def)

lemma volumes_from_updates_drop:
  assumes "CHR '':'' \<notin> set vol"
  shows "volumes_from_updates (before @ vol # after) acc =
         volumes_from_updates (before @ after) acc"
  using assms
  by (simp add: volumes_from_updates_append [of before] volumes_from_updates_skip
        split: sum.splits)

lemma target_config_drop:
  assumes "CHR '':'' \<notin> set vol"
  shows "target_config old (upd\<lparr>u_volumes := Some (before @ vol # after)\<rparr>) =
         target_config old (upd\<lparr>u_volumes := Some (before @ after)\<rparr>)"
  by (simp add: target_config_def volumes_from_updates_drop [OF assms]
        split: sum.splits prod.splits)

lemma decode_bind_dest:
  "decode_bind v = Some (Inr (s, d)) \<Longrightarrow> CHR '':'' \<in> set v \<and> d = split_colon v ! 1"
  by (auto simp: decode_bind_def split: if_splits list.splits)
     (metis One_nat_def nth_Cons_0 nth_Cons_Suc nth_take one_less_numeral_iff semiring_norm(76))

text \<open>The loop of lines 207--212 never raises; it keeps the entries with a colon, in
  order, and declares their second segments.\<close>

lemma volumes_from_updates_result:
  "\<exists>volumes. volumes_from_updates vols (vs, bs) =
       Inr (volumes, bs @ filter (\<lambda>x. CHR '':'' \<in> set x) vols) \<and>
     fst ` set volumes =
       fst ` set vs \<union> (\<lambda>x. split_colon x ! 1) ` {x \<in> set vols. CHR '':'' \<in> set x}"
proof (induction vols arbitrary: vs bs)
  case Nil
  show ?case by simp
next
  case (Cons v vols)
  show ?case
  proof (cases "decode_bind v")
    case None
    then have "CHR '':'' \<notin> set v" by (simp add: decode_bind_None_iff)
    with None Cons.IH [of vs bs] show ?thesis by auto
  next
    case (Some r)
    from Some decode_bind_no_error [of v] obtain s d where r: "r = Inr (s, d)"
      by (cases r) auto
    with Some decode_bind_dest [of v s d]
    have c: "CHR '':'' \<in> set v" and d: "d = split_colon v ! 1" by auto
    from Cons.IH [of "AList.update d () vs" "bs @ [v]"] obtain volumes where
      v1: "volumes_from_updates vols (AList.update d () vs, bs @ [v]) =
             Inr (volumes, (bs @ [v]) @ filter (\<lambda>x. CHR '':'' \<in> set x) vols)"
      and v2: "fst ` set volumes = fst ` set (AList.update d () vs) \<union>
             (\<lambda>x. split_colon x ! 1) ` {x \<in> set vols. CHR '':'' \<in> set x}"
      by blast
    have "volumes_from_updates (v # vols) (vs, bs) =
            Inr (volumes, bs @ filter (\<lambda>x. CHR '':'' \<in> set x) (v # vols))"
      using Some r c v1 by simp
    moreover have "{x \<in> set (v # vols). CHR '':'' \<in> set x} =
             insert v {x \<in> set vols. CHR '':'' \<in> set x}"
      using c by auto
    then have "fst ` set volumes = fst ` set vs \<union>
             (\<lambda>x. split_colon x ! 1) ` {x \<in> set (v # vols). CHR '':'' \<in> set x}"
      using v2 d by (simp add: AList.dom_update)
    ultimately show ?thesis by blast
  qed
qed

lemma volumes_from_mounts_binds:
  "snd (volumes_from_mounts ms (vs, bs)) =
     bs @ map encode_mount (filter (\<lambda>m. Type m = ''bind'') ms)"
  by (induction ms arbitrary: vs bs) auto

lemma volumes_from_mounts_keys:
  "fst ` set (fst (volumes_from_mounts ms (vs, bs))) =
     fst ` set vs \<union> Destination ` {m \<in> set ms. Type m = ''bind''}"
  by (induction ms arbitrary: vs bs) (auto simp: AList.dom_update)

text \<open>Lines 200--227 never raise, and this is what they compute.\<close>

lemma target_config_fields:
  "\<exists>cfg. target_config old upd = Inr cfg \<and>
     cfg_image cfg = (case u_image upd of Some v \<Rightarrow> v | None \<Rightarrow> Image old) \<and>
     cfg_environment cfg =
       (case u_environment upd of
          Some v \<Rightarrow> v
        | None \<Rightarrow> (case Env old of Some v \<Rightarrow> v | None \<Rightarrow> [])) \<and>
     cfg_networks cfg = (case u_networks upd of Some v \<Rightarrow> v | None \<Rightarrow> Networks old) \<and>
     cfg_ports cfg =
       (case u_ports upd of
          Some v \<Rightarrow> v
        | None \<Rightarrow> (case PortBindings old of Some v \<Rightarrow> v | None \<Rightarrow> [])) \<and>
     cfg_binds cfg =
       (case u_volumes upd of
          Some vols \<Rightarrow> filter (\<lambda>x. CHR '':'' \<in> set x) vols
        | None \<Rightarrow>
            map encode_mount
              (filter (\<lambda>m. Type m = ''bind'')
                 (case Mounts old of Some ms \<Rightarrow> ms | None \<Rightarrow> []))) \<and>
     fst ` set (cfg_volumes cfg) =
       (case u_volumes upd of
          Some vols \<Rightarrow> (\<lambda>x. split_colon x ! 1) ` {x \<in> set vols. CHR '':'' \<in> set x}
        | None \<Rightarrow>
            Destination `
              {m \<in> set (case Mounts old of Some ms \<Rightarrow> ms | None \<Rightarrow> []). Type m = ''bind''})"
proof (cases "u_volumes upd")
  case None
  obtain volumes binds where
    vm: "volumes_from_mounts (get_or (Mounts old) []) ([], []) = (volumes, binds)"
    by (cases "volumes_from_mounts (get_or (Mounts old) []) ([], [])") auto
  from vm volumes_from_mounts_binds [of "get_or (Mounts old) []" "[]" "[]"]
  have b: "binds = map encode_mount (filter (\<lambda>m. Type m = ''bind'') (get_or (Mounts old) []))"
    by simp
  from vm volumes_from_mounts_keys [of "get_or (Mounts old) []" "[]" "[]"]
  have k: "fst ` set volumes = Destination ` {m \<in> set (get_or (Mounts old) []). Type m = ''bind''}"
    by simp
  from None vm b k show ?thesis
    by (simp add: target_config_def get_or_def)
next
  case (Some vols)
  from volumes_from_updates_result [of vols "[]" "[]"] obtain volumes where
    v1: "volumes_from_updates vols ([], []) =
           Inr (volumes, filter (\<lambda>x. CHR '':'' \<in> set x) vols)"
    and v2: "fst ` set volumes =
           (\<lambda>x. split_colon x ! 1) ` {x \<in> set vols. CHR '':'' \<in> set x}"
    by auto
  from Some v1 v2 show ?thesis
    by (simp add: target_config_def get_or_def)
qed

lemma web1_target: "target_config web1 no_updates = Inr web1_config"
  by (simp add: target_config_def web1_def no_updates_def web1_config_def get_or_def
        host_data_def encode_mount_def)

lemma web1_run_args: "Run (run_args_of web1 web1_config) = web1_run"
  by (simp add: run_args_of_def web1_def web1_config_def web1_run_def)

lemma web1_target_networks:
  "target_config web1 two_more_networks =
     Inr (web1_config\<lparr>cfg_networks := [''frontend'', ''backend'', ''metrics'']\<rparr>)"
  by (simp add: target_config_def web1_def no_updates_def web1_config_def get_or_def
        host_data_def encode_mount_def two_more_networks_def)

section \<open>The calls of \<^verbatim>\<open>update_container\<close>\<close>

lemma connect_networks_extends: "\<exists>ext. connect_networks rt tr ns = tr @ ext"
proof (induction ns arbitrary: tr)
  case Nil
  show ?case by simp
next
  case (Cons n ns)
  from Cons.IH [of "tr @ [NetworksGet n]"] Cons.IH [of "tr @ [NetworksGet n, NetConnect n]"]
  show ?case by (auto split: option.splits)
qed

lemma connect_networks_attempts:
  "filter is_networks_get (connect_networks rt tr ns) =
     filter is_networks_get tr @ map NetworksGet ns"
  by (induction ns arbitrary: tr) (auto simp: is_networks_get_def split: option.splits)

lemma connect_networks_all_found:
  assumes "\<forall>tr n. respond rt tr (NetworksGet n) = None"
  shows "connect_networks rt tr ns =
           tr @ concat (map (\<lambda>n. [NetworksGet n, NetConnect n]) ns)"
  using assms by (induction ns arbitrary: tr) (auto split: option.splits)

text \<open>In the loop every lookup that succeeds is followed at once by the connection
  to that network, whatever the calls before it did.\<close>

lemma connect_after_found_lookup:
  assumes "connect_networks rt tr ns = pre @ NetworksGet n # post"
    and "length tr \<le> length pre"
    and "respond rt pre (NetworksGet n) = None"
  shows "\<exists>rest. post = NetConnect n # rest"
  using assms
proof (induction ns arbitrary: tr)
  case Nil
  then show ?case by auto
next
  case (Cons m ms)
  show ?case
  proof (cases "respond rt tr (NetworksGet m)")
    case (Some e)
    let ?tr = "tr @ [NetworksGet m]"
    from Some Cons.prems(1) have eq: "connect_networks rt ?tr ms = pre @ NetworksGet n # post"
      by simp
    show ?thesis
    proof (cases "length ?tr \<le> length pre")
      case True
      from Cons.IH [OF eq True Cons.prems(3)] show ?thesis .
    next
      case False
      with Cons.prems(2) have len: "length pre = length tr" by simp
      obtain ext where "connect_networks rt ?tr ms = ?tr @ ext"
        using connect_networks_extends by blast
      with eq have "tr @ NetworksGet m # ext = pre @ NetworksGet n # post" by simp
      with len have "pre = tr" and "n = m" by auto
      with Some Cons.prems(3) show ?thesis by simp
    qed
  next
    case None
    let ?tr = "tr @ [NetworksGet m, NetConnect m]"
    from None Cons.prems(1) have eq: "connect_networks rt ?tr ms = pre @ NetworksGet n # post"
      by (simp split: option.splits)
    show ?thesis
    proof (cases "length ?tr \<le> length pre")
      case True
      from Cons.IH [OF eq True Cons.prems(3)] show ?thesis .
    next
      case False
      obtain ext where "connect_networks rt ?tr ms = ?tr @ ext"
        using connect_networks_extends by blast
      with eq have e2: "tr @ NetworksGet m # NetConnect m # ext = pre @ NetworksGet n # post"
        by simp
      from False Cons.prems(2) have "length pre = length tr \<or> length pre = Suc (length tr)"
        by auto
      then show ?thesis
      proof
        assume "length pre = length tr"
        with e2 have "pre = tr" and "NetworksGet m # NetConnect m # ext = NetworksGet n # post"
          by auto
        then show ?thesis by auto
      next
        assume l: "length pre = Suc (length tr)"
        from e2 have "(tr @ [NetworksGet m]) @ NetConnect m # ext = pre @ NetworksGet n # post"
          by simp
        with l have "NetConnect m # ext = NetworksGet n # post"
          by (metis append_eq_append_conv length_append_singleton)
        then show ?thesis by simp
      qed
    qed
  qed
qed

lemma update_container_issues_run:
  assumes "containers_get rt container_id = Inr old"
    and "target_config old upd = Inr cfg"
    and "respond rt [ContainersGet container_id] Stop = None"
    and "respond rt [ContainersGet container_id, Stop] Remove = None"
  shows "take 4 (fst (update_container rt container_id upd)) =
           [ContainersGet container_id, Stop, Remove, Run (run_args_of old cfg)]"
proof (cases "respond rt [ContainersGet container_id, Stop, Remove] (Run (run_args_of old cfg))")
  case None
  obtain ext where
    "connect_networks rt [ContainersGet container_id, Stop, Remove, Run (run_args_of old cfg)]
       (drop 1 (cfg_networks cfg)) =
     [ContainersGet container_id, Stop, Remove, Run (run_args_of old cfg)] @ ext"
    using connect_networks_extends by blast
  with assms None show ?thesis by (simp add: update_container_def)
next
  case (Some e)
  with assms show ?thesis by (simp add: update_container_def)
qed

section \<open>The configuration of the recreated container (C1)\<close>

text \<open>
  C1, as amended. When the old container is found and stopped and removed without
  failure, the fourth call of \<^verbatim>\<open>update_container\<close> is the \<^verbatim>\<open>run\<close> call, and its
  configuration takes the image, the environment, the networks and the ports from
  the patch where the patch sets the field and from the old container otherwise, each
  as a whole field (the first network is given to \<^verbatim>\<open>run\<close>, an empty port mapping
  is passed as none). For the volumes the code keeps, in order, the patch's entries
  that contain a colon when the patch sets the field, and the bind strings of the old
  container's mounts of type \<^verbatim>\<open>bind\<close> otherwise; the destinations declared to
  \<^verbatim>\<open>run\<close> are the second segments of the former or the destinations of the latter
  (none when there is no such entry).
\<close>

theorem recreation_config_merge:
  assumes "containers_get rt container_id = Inr old"
    and "respond rt [ContainersGet container_id] Stop = None"
    and "respond rt [ContainersGet container_id, Stop] Remove = None"
  shows "\<exists>cfg. target_config old upd = Inr cfg \<and>
     take 4 (fst (update_container rt container_id upd)) =
       [ContainersGet container_id, Stop, Remove, Run (run_args_of old cfg)] \<and>
     run_image (run_args_of old cfg) =
       (case u_image upd of Some v \<Rightarrow> v | None \<Rightarrow> Image old) \<and>
     run_environment (run_args_of old cfg) =
       (case u_environment upd of
          Some v \<Rightarrow> v
        | None \<Rightarrow> (case Env old of Some v \<Rightarrow> v | None \<Rightarrow> [])) \<and>
     cfg_networks cfg = (case u_networks upd of Some v \<Rightarrow> v | None \<Rightarrow> Networks old) \<and>
     run_network (run_args_of old cfg) =
       (case cfg_networks cfg of [] \<Rightarrow> None | n # rest \<Rightarrow> Some n) \<and>
     cfg_ports cfg =
       (case u_ports upd of
          Some v \<Rightarrow> v
        | None \<Rightarrow> (case PortBindings old of Some v \<Rightarrow> v | None \<Rightarrow> [])) \<and>
     run_ports (run_args_of old cfg) =
       (if cfg_ports cfg = [] then None else Some (cfg_ports cfg)) \<and>
     cfg_binds cfg =
       (case u_volumes upd of
          Some vols \<Rightarrow> filter (\<lambda>x. CHR '':'' \<in> set x) vols
        | None \<Rightarrow>
            map encode_mount
              (filter (\<lambda>m. Type m = ''bind'')
                 (case Mounts old of Some ms \<Rightarrow> ms | None \<Rightarrow> []))) \<and>
     fst ` set (cfg_volumes cfg) =
       (case u_volumes upd of
          Some vols \<Rightarrow> (\<lambda>x. split_colon x ! 1) ` {x \<in> set vols. CHR '':'' \<in> set x}
        | None \<Rightarrow>
            Destination `
              {m \<in> set (case Mounts old of Some ms \<Rightarrow> ms | None \<Rightarrow> []). Type m = ''bind''}) \<and>
     run_volumes (run_args_of old cfg) =
       (if cfg_volumes cfg = [] then None else Some (cfg_volumes cfg))"
proof -
  from target_config_fields [of old upd] obtain cfg where
    cfg: "target_config old upd = Inr cfg"
    and f1: "cfg_image cfg = (case u_image upd of Some v \<Rightarrow> v | None \<Rightarrow> Image old)"
    and f2: "cfg_environment cfg =
       (case u_environment upd of
          Some v \<Rightarrow> v
        | None \<Rightarrow> (case Env old of Some v \<Rightarrow> v | None \<Rightarrow> []))"
    and f3: "cfg_networks cfg = (case u_networks upd of Some v \<Rightarrow> v | None \<Rightarrow> Networks old)"
    and f4: "cfg_ports cfg =
       (case u_ports upd of
          Some v \<Rightarrow> v
        | None \<Rightarrow> (case PortBindings old of Some v \<Rightarrow> v | None \<Rightarrow> []))"
    and f5: "cfg_binds cfg =
       (case u_volumes upd of
          Some vols \<Rightarrow> filter (\<lambda>x. CHR '':'' \<in> set x) vols
        | None \<Rightarrow>
            map encode_mount
              (filter (\<lambda>m. Type m = ''bind'')
                 (case Mounts old of Some ms \<Rightarrow> ms | None \<Rightarrow> [])))"
    and f6: "fst ` set (cfg_volumes cfg) =
       (case u_volumes upd of
          Some vols \<Rightarrow> (\<lambda>x. split_colon x ! 1) ` {x \<in> set vols. CHR '':'' \<in> set x}
        | None \<Rightarrow>
            Destination `
              {m \<in> set (case Mounts old of Some ms \<Rightarrow> ms | None \<Rightarrow> []). Type m = ''bind''})"
    by blast
  note tr = update_container_issues_run [OF assms(1) cfg assms(2) assms(3)]
  have r1: "run_image (run_args_of old cfg) = cfg_image cfg"
    and r2: "run_environment (run_args_of old cfg) = cfg_environment cfg"
    and r3: "run_network (run_args_of old cfg) =
       (case cfg_networks cfg of [] \<Rightarrow> None | n # rest \<Rightarrow> Some n)"
    and r4: "run_ports (run_args_of old cfg) =
       (if cfg_ports cfg = [] then None else Some (cfg_ports cfg))"
    and r5: "run_volumes (run_args_of old cfg) =
       (if cfg_volumes cfg = [] then None else Some (cfg_volumes cfg))"
    by (simp_all add: run_args_of_def)
  show ?thesis
    apply (rule exI [of _ cfg])
    apply (intro conjI)
              apply (rule cfg)
             apply (rule tr)
            apply (simp only: r1 f1)
           apply (simp only: r2 f2)
          apply (rule f3)
         apply (rule r3)
        apply (rule f4)
       apply (rule r4)
      apply (rule f5)
     apply (rule f6)
    apply (rule r5)
    done
qed

theorem recreation_config_merge_witness:
  "\<exists>cfg. target_config web1 image_and_volumes = Inr cfg \<and>
     take 4 (fst (update_container (rt_ok web1) ''web-1'' image_and_volumes)) =
       [ContainersGet ''web-1'', Stop, Remove, Run (run_args_of web1 cfg)] \<and>
     run_image (run_args_of web1 cfg) = ''nginx:1.26'' \<and>
     run_environment (run_args_of web1 cfg) = [''MODE=prod''] \<and>
     run_network (run_args_of web1 cfg) = Some ''frontend'' \<and>
     run_ports (run_args_of web1 cfg) = Some [(''80/tcp'', [''8080''])] \<and>
     cfg_binds cfg = [''/srv:/www:ro''] \<and>
     fst ` set (cfg_volumes cfg) = {''/www''}"
proof -
  have h1: "containers_get (rt_ok web1) ''web-1'' = Inr web1"
    by (simp add: rt_ok_def)
  have h2: "respond (rt_ok web1) [ContainersGet ''web-1''] Stop = None"
    by (simp add: rt_ok_def)
  have h3: "respond (rt_ok web1) [ContainersGet ''web-1'', Stop] Remove = None"
    by (simp add: rt_ok_def)
  have vols: "(\<lambda>x. split_colon x ! 1) `
      {x \<in> set [''/srv:/www:ro'', ''data'']. CHR '':'' \<in> set x} = {''/www''}"
  proof -
    have "{x \<in> set [''/srv:/www:ro'', ''data'']. CHR '':'' \<in> set x} = {''/srv:/www:ro''}"
      by auto
    then show ?thesis by simp
  qed
  from recreation_config_merge [OF h1 h2 h3, of image_and_volumes] obtain cfg where
    c: "target_config web1 image_and_volumes = Inr cfg"
    and t: "take 4 (fst (update_container (rt_ok web1) ''web-1'' image_and_volumes)) =
       [ContainersGet ''web-1'', Stop, Remove, Run (run_args_of web1 cfg)]"
    and f1: "run_image (run_args_of web1 cfg) =
       (case u_image image_and_volumes of Some v \<Rightarrow> v | None \<Rightarrow> Image web1)"
    and f2: "run_environment (run_args_of web1 cfg) =
       (case u_environment image_and_volumes of
          Some v \<Rightarrow> v
        | None \<Rightarrow> (case Env web1 of Some v \<Rightarrow> v | None \<Rightarrow> []))"
    and f3: "cfg_networks cfg =
       (case u_networks image_and_volumes of Some v \<Rightarrow> v | None \<Rightarrow> Networks web1)"
    and f4: "run_network (run_args_of web1 cfg) =
       (case cfg_networks cfg of [] \<Rightarrow> None | n # rest \<Rightarrow> Some n)"
    and f5: "cfg_ports cfg =
       (case u_ports image_and_volumes of
          Some v \<Rightarrow> v
        | None \<Rightarrow> (case PortBindings web1 of Some v \<Rightarrow> v | None \<Rightarrow> []))"
    and f6: "run_ports (run_args_of web1 cfg) =
       (if cfg_ports cfg = [] then None else Some (cfg_ports cfg))"
    and f7: "cfg_binds cfg =
       (case u_volumes image_and_volumes of
          Some vols \<Rightarrow> filter (\<lambda>x. CHR '':'' \<in> set x) vols
        | None \<Rightarrow>
            map encode_mount
              (filter (\<lambda>m. Type m = ''bind'')
                 (case Mounts web1 of Some ms \<Rightarrow> ms | None \<Rightarrow> [])))"
    and f8: "fst ` set (cfg_volumes cfg) =
       (case u_volumes image_and_volumes of
          Some vols \<Rightarrow> (\<lambda>x. split_colon x ! 1) ` {x \<in> set vols. CHR '':'' \<in> set x}
        | None \<Rightarrow>
            Destination `
              {m \<in> set (case Mounts web1 of Some ms \<Rightarrow> ms | None \<Rightarrow> []). Type m = ''bind''})"
    by blast
  have g1: "run_image (run_args_of web1 cfg) = ''nginx:1.26''"
    using f1 by (simp add: image_and_volumes_def no_updates_def)
  have g2: "run_environment (run_args_of web1 cfg) = [''MODE=prod'']"
    using f2 by (simp add: image_and_volumes_def no_updates_def web1_def)
  have g3: "cfg_networks cfg = [''frontend'']"
    using f3 by (simp add: image_and_volumes_def no_updates_def web1_def)
  have g4: "run_network (run_args_of web1 cfg) = Some ''frontend''"
    using f4 g3 by simp
  have g5: "cfg_ports cfg = [(''80/tcp'', [''8080''])]"
    using f5 by (simp add: image_and_volumes_def no_updates_def web1_def)
  have g6: "run_ports (run_args_of web1 cfg) = Some [(''80/tcp'', [''8080''])]"
    using f6 g5 by simp
  have g7: "cfg_binds cfg = [''/srv:/www:ro'']"
    using f7 by (simp add: image_and_volumes_def no_updates_def)
  have g8: "fst ` set (cfg_volumes cfg) = {''/www''}"
    using f8 vols by (simp add: image_and_volumes_def no_updates_def)
  from c t g1 g2 g4 g6 g7 g8 show ?thesis by blast
qed

text \<open>
  The claim as written fails on the mounts. The database \<open>db1\<close> has a named volume
  and the patch is empty: the merge of the specification keeps the mount, the
  configuration the code computes has none, and the \<^verbatim>\<open>run\<close> call declares no
  volume.
\<close>

theorem recreation_config_merge_counterexample:
  "spec_mounts (spec_merge (spec_snapshot db1) no_updates) =
     [''/var/lib/docker/volumes/dbdata/_data:/var/lib/postgresql/data:z''] \<and>
   map_sum id config_spec (target_config db1 no_updates) \<noteq>
     Inr (spec_merge (spec_snapshot db1) no_updates) \<and>
   update_container (rt_ok db1) ''db-1'' no_updates =
     ([ContainersGet ''db-1'', Stop, Remove,
       Run \<lparr> run_image = ''postgres:16'', run_name = ''db-1'',
             run_environment = [''POSTGRES_DB=app''], run_volumes = None,
             run_ports = None, run_network = Some ''backend'' \<rparr>],
      Inr [(''status'', ''success''),
           (''message'', ''Container db-1 updated and recreated'')])"
  by (simp add: update_container_def target_config_def run_args_of_def get_or_def
        rt_ok_def db1_def no_updates_def spec_merge_def spec_snapshot_def config_spec_def
        encode_mount_def)

section \<open>A failed creation (C2)\<close>

text \<open>
  C2, as amended. When the old container is found, stopped and removed without
  failure and the \<^verbatim>\<open>run\<close> call fails, \<^verbatim>\<open>update_container\<close> fails and the failed
  \<^verbatim>\<open>run\<close> is its last call: nothing is started or connected and the old container is
  not created again. The error is the one of any failed runtime call of this method:
  an \<^verbatim>\<open>Exception\<close> with the message \<^verbatim>\<open>Container <id> not found\<close> for a
  \<open>NotFound\<close>, with \<^verbatim>\<open>Failed to update container: <cause>\<close> for another
  \<open>APIError\<close>, and the runtime's own exception otherwise. It holds the container id or
  the cause and nothing of the old configuration.
\<close>

theorem create_failure_is_generic:
  assumes "containers_get rt container_id = Inr old"
    and "target_config old upd = Inr cfg"
    and "respond rt [ContainersGet container_id] Stop = None"
    and "respond rt [ContainersGet container_id, Stop] Remove = None"
    and "respond rt [ContainersGet container_id, Stop, Remove] (Run (run_args_of old cfg)) =
           Some e"
  shows "update_container rt container_id upd =
           ([ContainersGet container_id, Stop, Remove, Run (run_args_of old cfg)],
            Inl (case e of
                   NotFound msg \<Rightarrow> Exception (''Container '' @ container_id @ '' not found'')
                 | APIError msg \<Rightarrow> Exception (''Failed to update container: '' @ msg)
                 | _ \<Rightarrow> e))"
  using assms by (simp add: update_container_def update_container_except_def)

theorem create_failure_is_generic_witness:
  "update_container (rt_failing web1 is_run) ''web-1'' no_updates =
     ([ContainersGet ''web-1'', Stop, Remove, web1_run],
      Inl (Exception ''Failed to update container: simulated''))"
proof -
  have h1: "containers_get (rt_failing web1 is_run) ''web-1'' = Inr web1"
    by (simp add: rt_failing_def)
  have h2: "respond (rt_failing web1 is_run) [ContainersGet ''web-1''] Stop = None"
    by (simp add: rt_failing_def is_run_def)
  have h3: "respond (rt_failing web1 is_run) [ContainersGet ''web-1'', Stop] Remove = None"
    by (simp add: rt_failing_def is_run_def)
  have h4: "respond (rt_failing web1 is_run) [ContainersGet ''web-1'', Stop, Remove]
              (Run (run_args_of web1 web1_config)) = Some (APIError ''simulated'')"
    by (simp add: rt_failing_def is_run_def)
  from create_failure_is_generic [OF h1 web1_target h2 h3 h4]
  show ?thesis by (simp add: web1_run_args)
qed

text \<open>
  The claim as written fails: the error of a failed creation is not a kind of its
  own and carries no snapshot. It is the very error of a failed stop of the same
  container, and the very error of a failed creation of a container with another
  configuration.
\<close>

theorem create_failure_counterexample:
  "snd (update_container (rt_failing web1 is_run) ''web-1'' no_updates) =
     Inl (Exception ''Failed to update container: simulated'') \<and>
   snd (update_container (rt_failing web1 (\<lambda>c. c = Stop)) ''web-1'' no_updates) =
     Inl (Exception ''Failed to update container: simulated'') \<and>
   snd (update_container (rt_failing db1 is_run) ''web-1'' no_updates) =
     Inl (Exception ''Failed to update container: simulated'')"
  by (simp add: update_container_def update_container_except_def target_config_def
        rt_failing_def is_run_def web1_def db1_def no_updates_def get_or_def)

section \<open>A failed stop or removal (C3)\<close>

text \<open>
  C3. When the old container is found and its stop fails, or its stop succeeds and
  its removal fails, \<^verbatim>\<open>update_container\<close> ends with an error made from that failure
  and the failed call is its last: the calls are the lookup and the stop, or the
  lookup, the stop and the failed removal, so nothing is created, started or
  connected and the old container is not removed.
\<close>

theorem stop_remove_failure_aborts:
  assumes "containers_get rt container_id = Inr old"
    and "respond rt [ContainersGet container_id] Stop = Some e \<or>
         respond rt [ContainersGet container_id] Stop = None \<and>
         respond rt [ContainersGet container_id, Stop] Remove = Some e"
  shows "update_container rt container_id upd =
           (if respond rt [ContainersGet container_id] Stop = None
            then [ContainersGet container_id, Stop, Remove]
            else [ContainersGet container_id, Stop],
            Inl (update_container_except container_id e))"
proof -
  obtain cfg where "target_config old upd = Inr cfg"
    using target_config_fields [of old upd] by blast
  with assms show ?thesis by (auto simp: update_container_def)
qed

theorem stop_remove_failure_aborts_witness:
  "respond (rt_failing web1 (\<lambda>c. c = Remove)) [ContainersGet ''web-1''] Stop = None \<and>
   respond (rt_failing web1 (\<lambda>c. c = Remove)) [ContainersGet ''web-1'', Stop] Remove =
     Some (APIError ''simulated'') \<and>
   update_container (rt_failing web1 (\<lambda>c. c = Remove)) ''web-1'' no_updates =
     ([ContainersGet ''web-1'', Stop, Remove],
      Inl (Exception ''Failed to update container: simulated''))"
proof -
  have h1: "containers_get (rt_failing web1 (\<lambda>c. c = Remove)) ''web-1'' = Inr web1"
    by (simp add: rt_failing_def)
  have h2: "respond (rt_failing web1 (\<lambda>c. c = Remove)) [ContainersGet ''web-1''] Stop = None"
    by (simp add: rt_failing_def)
  have h3: "respond (rt_failing web1 (\<lambda>c. c = Remove)) [ContainersGet ''web-1'', Stop] Remove =
     Some (APIError ''simulated'')"
    by (simp add: rt_failing_def)
  from h2 h3 have h:
    "respond (rt_failing web1 (\<lambda>c. c = Remove)) [ContainersGet ''web-1''] Stop =
       Some (APIError ''simulated'') \<or>
     respond (rt_failing web1 (\<lambda>c. c = Remove)) [ContainersGet ''web-1''] Stop = None \<and>
     respond (rt_failing web1 (\<lambda>c. c = Remove)) [ContainersGet ''web-1'', Stop] Remove =
       Some (APIError ''simulated'')"
    by blast
  from stop_remove_failure_aborts [OF h1 h, of no_updates] h2 h3
  show ?thesis by (simp add: update_container_except_def)
qed

section \<open>Reattaching the networks (C4)\<close>

text \<open>
  C4, as amended. When the old container is found, stopped and removed and the new
  one is run without failure, \<^verbatim>\<open>update_container\<close> looks up every network after the
  first of the target configuration, each once and in order, whatever failed for the
  networks before it; every lookup that succeeds, wherever it stands among the calls,
  is followed at once by the \<^verbatim>\<open>connect\<close> to that network, so a failed lookup or a
  failed connection on one network leaves the attempt on the next one whole; where
  every lookup succeeds the calls are the lookup and the connection of each network
  in turn. It returns success, and the result is the status and the message only: a
  failed network is reported nowhere.
\<close>

theorem reattachment_best_effort:
  assumes "containers_get rt container_id = Inr old"
    and "target_config old upd = Inr cfg"
    and "respond rt [ContainersGet container_id] Stop = None"
    and "respond rt [ContainersGet container_id, Stop] Remove = None"
    and "respond rt [ContainersGet container_id, Stop, Remove] (Run (run_args_of old cfg)) =
           None"
  shows "filter is_networks_get (fst (update_container rt container_id upd)) =
           map NetworksGet (drop 1 (cfg_networks cfg)) \<and>
         (\<forall>pre n post.
            fst (update_container rt container_id upd) = pre @ NetworksGet n # post \<and>
            respond rt pre (NetworksGet n) = None \<longrightarrow>
            (\<exists>rest. post = NetConnect n # rest)) \<and>
         ((\<forall>tr n. respond rt tr (NetworksGet n) = None) \<longrightarrow>
            fst (update_container rt container_id upd) =
              [ContainersGet container_id, Stop, Remove, Run (run_args_of old cfg)] @
              concat (map (\<lambda>n. [NetworksGet n, NetConnect n]) (drop 1 (cfg_networks cfg)))) \<and>
         snd (update_container rt container_id upd) =
           Inr [(''status'', ''success''),
                (''message'', ''Container '' @ container_id @ '' updated and recreated'')]"
proof -
  let ?t4 = "[ContainersGet container_id, Stop, Remove, Run (run_args_of old cfg)]"
  have tr: "fst (update_container rt container_id upd) =
      connect_networks rt ?t4 (drop 1 (cfg_networks cfg))"
    using assms by (simp add: update_container_def)
  have a: "filter is_networks_get (fst (update_container rt container_id upd)) =
           map NetworksGet (drop 1 (cfg_networks cfg))"
    by (simp add: tr connect_networks_attempts is_networks_get_def)
  have b: "\<exists>rest. post = NetConnect n # rest"
    if eq: "fst (update_container rt container_id upd) = pre @ NetworksGet n # post"
      and ok: "respond rt pre (NetworksGet n) = None" for pre n post
  proof -
    obtain ext where ext: "connect_networks rt ?t4 (drop 1 (cfg_networks cfg)) = ?t4 @ ext"
      using connect_networks_extends by blast
    have "4 \<le> length pre"
    proof (rule ccontr)
      assume "\<not> 4 \<le> length pre"
      then have l: "length pre < 4" by simp
      from eq tr ext have "(?t4 @ ext) ! length pre = NetworksGet n"
        by (metis nth_append_length)
      moreover from l have "length pre = 0 \<or> length pre = 1 \<or> length pre = 2 \<or> length pre = 3"
        by arith
      ultimately show False by (elim disjE) simp_all
    qed
    then have "length ?t4 \<le> length pre" by simp
    from connect_after_found_lookup [OF _ this ok, of "drop 1 (cfg_networks cfg)" post] eq tr
    show ?thesis by simp
  qed
  have c: "fst (update_container rt container_id upd) =
              ?t4 @ concat (map (\<lambda>n. [NetworksGet n, NetConnect n]) (drop 1 (cfg_networks cfg)))"
    if "\<forall>tr n. respond rt tr (NetworksGet n) = None"
    by (simp add: tr connect_networks_all_found [OF that])
  have d: "snd (update_container rt container_id upd) =
           Inr [(''status'', ''success''),
                (''message'', ''Container '' @ container_id @ '' updated and recreated'')]"
    using assms by (simp add: update_container_def)
  from a b c d show ?thesis by blast
qed


theorem reattachment_best_effort_witness:
  "respond (rt_failing web1 (\<lambda>c. c = NetworksGet ''backend''))
     [ContainersGet ''web-1'', Stop, Remove, web1_run] (NetworksGet ''backend'') =
     Some (APIError ''simulated'') \<and>
   respond (rt_failing web1 (\<lambda>c. c = NetworksGet ''backend''))
     [ContainersGet ''web-1'', Stop, Remove, web1_run, NetworksGet ''backend'']
     (NetworksGet ''metrics'') = None \<and>
   fst (update_container (rt_failing web1 (\<lambda>c. c = NetworksGet ''backend'')) ''web-1''
        two_more_networks) =
     [ContainersGet ''web-1'', Stop, Remove, web1_run, NetworksGet ''backend'',
      NetworksGet ''metrics'', NetConnect ''metrics''] \<and>
   (\<exists>rest. drop 6 (fst (update_container (rt_failing web1 (\<lambda>c. c = NetworksGet ''backend''))
                 ''web-1'' two_more_networks)) = NetConnect ''metrics'' # rest) \<and>
   filter is_networks_get
     (fst (update_container (rt_failing web1 (\<lambda>c. c = NetworksGet ''backend'')) ''web-1''
        two_more_networks)) =
     [NetworksGet ''backend'', NetworksGet ''metrics''] \<and>
   snd (update_container (rt_failing web1 (\<lambda>c. c = NetworksGet ''backend'')) ''web-1''
        two_more_networks) =
     Inr [(''status'', ''success''),
          (''message'', ''Container web-1 updated and recreated'')] \<and>
   respond (rt_failing web1 (\<lambda>c. c = NetConnect ''backend''))
     [ContainersGet ''web-1'', Stop, Remove, web1_run, NetworksGet ''backend'']
     (NetConnect ''backend'') = Some (APIError ''simulated'') \<and>
   update_container (rt_failing web1 (\<lambda>c. c = NetConnect ''backend'')) ''web-1''
        two_more_networks =
     ([ContainersGet ''web-1'', Stop, Remove, web1_run,
       NetworksGet ''backend'', NetConnect ''backend'',
       NetworksGet ''metrics'', NetConnect ''metrics''],
      Inr [(''status'', ''success''),
           (''message'', ''Container web-1 updated and recreated'')])"
proof -
  let ?cfg = "web1_config\<lparr>cfg_networks := [''frontend'', ''backend'', ''metrics'']\<rparr>"
  have r: "Run (run_args_of web1 ?cfg) = web1_run"
    by (simp add: run_args_of_def web1_def web1_config_def web1_run_def)
  have nets: "drop 1 (cfg_networks ?cfg) = [''backend'', ''metrics'']"
    by simp
  let ?A = "rt_failing web1 (\<lambda>c. c = NetworksGet ''backend'')"
  let ?pre = "[ContainersGet ''web-1'', Stop, Remove, web1_run, NetworksGet ''backend'']"
  have a1: "containers_get ?A ''web-1'' = Inr web1"
    by (simp add: rt_failing_def)
  have a2: "respond ?A [ContainersGet ''web-1''] Stop = None"
    by (simp add: rt_failing_def)
  have a3: "respond ?A [ContainersGet ''web-1'', Stop] Remove = None"
    by (simp add: rt_failing_def)
  have a4: "respond ?A [ContainersGet ''web-1'', Stop, Remove] (Run (run_args_of web1 ?cfg)) =
      None"
    by (simp add: rt_failing_def)
  have af: "respond ?A [ContainersGet ''web-1'', Stop, Remove, web1_run]
      (NetworksGet ''backend'') = Some (APIError ''simulated'')"
    by (simp add: rt_failing_def)
  have ao: "respond ?A ?pre (NetworksGet ''metrics'') = None"
    by (simp add: rt_failing_def)
  have atr: "fst (update_container ?A ''web-1'' two_more_networks) =
      [ContainersGet ''web-1'', Stop, Remove, web1_run, NetworksGet ''backend'',
       NetworksGet ''metrics'', NetConnect ''metrics'']"
    using a1 a2 a3 a4 af ao
    by (simp add: update_container_def web1_target_networks r rt_failing_def)
  note A = reattachment_best_effort [OF a1 web1_target_networks a2 a3 a4]
  from A have alook: "filter is_networks_get (fst (update_container ?A ''web-1'' two_more_networks)) =
      map NetworksGet (drop 1 (cfg_networks ?cfg))"
    by blast
  from A have astep: "\<forall>pre n post.
      fst (update_container ?A ''web-1'' two_more_networks) = pre @ NetworksGet n # post \<and>
      respond ?A pre (NetworksGet n) = None \<longrightarrow> (\<exists>rest. post = NetConnect n # rest)"
    by blast
  from A have asnd: "snd (update_container ?A ''web-1'' two_more_networks) =
      Inr [(''status'', ''success''),
           (''message'', ''Container '' @ ''web-1'' @ '' updated and recreated'')]"
    by blast
  have adec: "fst (update_container ?A ''web-1'' two_more_networks) =
      ?pre @ NetworksGet ''metrics'' #
        drop 6 (fst (update_container ?A ''web-1'' two_more_networks))"
    by (simp add: atr)
  from astep adec ao
  have aconn: "\<exists>rest. drop 6 (fst (update_container ?A ''web-1'' two_more_networks)) =
      NetConnect ''metrics'' # rest"
    by blast
  let ?B = "rt_failing web1 (\<lambda>c. c = NetConnect ''backend'')"
  have b1: "containers_get ?B ''web-1'' = Inr web1"
    by (simp add: rt_failing_def)
  have b2: "respond ?B [ContainersGet ''web-1''] Stop = None"
    by (simp add: rt_failing_def)
  have b3: "respond ?B [ContainersGet ''web-1'', Stop] Remove = None"
    by (simp add: rt_failing_def)
  have b4: "respond ?B [ContainersGet ''web-1'', Stop, Remove] (Run (run_args_of web1 ?cfg)) =
      None"
    by (simp add: rt_failing_def)
  have found: "\<forall>tr n. respond ?B tr (NetworksGet n) = None"
    by (simp add: rt_failing_def)
  have bf: "respond ?B ?pre (NetConnect ''backend'') = Some (APIError ''simulated'')"
    by (simp add: rt_failing_def)
  from reattachment_best_effort [OF b1 web1_target_networks b2 b3 b4] found
  have "fst (update_container ?B ''web-1'' two_more_networks) =
          [ContainersGet ''web-1'', Stop, Remove, Run (run_args_of web1 ?cfg)] @
          concat (map (\<lambda>n. [NetworksGet n, NetConnect n]) (drop 1 (cfg_networks ?cfg)))"
    and "snd (update_container ?B ''web-1'' two_more_networks) =
          Inr [(''status'', ''success''),
               (''message'', ''Container '' @ ''web-1'' @ '' updated and recreated'')]"
    by blast+
  then have bres: "update_container ?B ''web-1'' two_more_networks =
     ([ContainersGet ''web-1'', Stop, Remove, web1_run,
       NetworksGet ''backend'', NetConnect ''backend'',
       NetworksGet ''metrics'', NetConnect ''metrics''],
      Inr [(''status'', ''success''),
           (''message'', ''Container web-1 updated and recreated'')])"
    by (simp add: r prod_eq_iff)
  from alook have alook': "filter is_networks_get
      (fst (update_container ?A ''web-1'' two_more_networks)) =
      [NetworksGet ''backend'', NetworksGet ''metrics'']"
    by (simp only: nets) simp
  from asnd have asnd': "snd (update_container ?A ''web-1'' two_more_networks) =
      Inr [(''status'', ''success''),
           (''message'', ''Container web-1 updated and recreated'')]"
    by simp
  from af ao atr aconn alook' asnd' bf bres show ?thesis by blast
qed

text \<open>
  The claim as written fails: there is no list of warnings. The connection to
  \<^verbatim>\<open>backend\<close> fails, and the result is the one of a run in which nothing fails.
\<close>

theorem reattachment_counterexample:
  "update_container (rt_failing web1 (\<lambda>c. c = NetConnect ''backend'')) ''web-1''
     (no_updates\<lparr>u_networks := Some [''frontend'', ''backend'']\<rparr>) =
     ([ContainersGet ''web-1'', Stop, Remove, web1_run,
       NetworksGet ''backend'', NetConnect ''backend''],
      Inr [(''status'', ''success''),
           (''message'', ''Container web-1 updated and recreated'')]) \<and>
   respond (rt_failing web1 (\<lambda>c. c = NetConnect ''backend''))
     [ContainersGet ''web-1'', Stop, Remove, web1_run, NetworksGet ''backend'']
     (NetConnect ''backend'') = Some (APIError ''simulated'') \<and>
   snd (update_container (rt_failing web1 (\<lambda>c. c = NetConnect ''backend'')) ''web-1''
     (no_updates\<lparr>u_networks := Some [''frontend'', ''backend'']\<rparr>)) =
   snd (update_container (rt_ok web1) ''web-1''
     (no_updates\<lparr>u_networks := Some [''frontend'', ''backend'']\<rparr>))"
  by (simp add: update_container_def target_config_def run_args_of_def rt_failing_def
        rt_ok_def web1_def web1_run_def no_updates_def get_or_def host_data_def
        encode_mount_def)

section \<open>Stopping and starting (C5)\<close>

text \<open>
  \<^verbatim>\<open>attach_volume_to_container\<close> does what C5 says: once the container is found and
  the volume is not among its mounts, the stop is issued exactly when the status is
  \<^verbatim>\<open>running\<close>, and a call that succeeds has started the new container exactly then.
\<close>

lemma attach_stops_and_starts_iff_running:
  assumes "containers_get rt container_id = Inr c"
    and "\<not> list_ex (\<lambda>m. Source m = volume_name) (get_or (Mounts c) [])"
  shows "(Stop \<in> set (fst (attach_volume_to_container rt container_id volume_name
                              mount_point mode))
            \<longleftrightarrow> status c = ''running'') \<and>
         (snd (attach_volume_to_container rt container_id volume_name mount_point mode) =
            Inr r \<longrightarrow>
            (Start \<in> set (fst (attach_volume_to_container rt container_id volume_name
                                 mount_point mode))
               \<longleftrightarrow> status c = ''running''))"
  using assms
  by (auto simp: attach_volume_to_container_def Let_def
        split: option.splits sum.splits if_splits)

text \<open>
  C5 on \<^verbatim>\<open>update_container\<close>: the container has exited, and the update stops it all
  the same and recreates it with \<^verbatim>\<open>run\<close>, which starts the new container.
\<close>

theorem update_of_exited_container_stops_and_runs:
  "status web1_exited = ''exited'' \<and>
   update_container (rt_ok web1_exited) ''web-1'' no_updates =
     ([ContainersGet ''web-1'', Stop, Remove, web1_run],
      Inr [(''status'', ''success''),
           (''message'', ''Container web-1 updated and recreated'')])"
  by (simp add: update_container_def target_config_def run_args_of_def rt_ok_def
        web1_exited_def web1_def web1_run_def no_updates_def get_or_def host_data_def
        encode_mount_def)

section \<open>Attaching a volume that is already attached (C6)\<close>

text \<open>
  C6. When the container is found and one of its mounts has the volume's name as
  its source, \<^verbatim>\<open>attach_volume_to_container\<close> fails with its already-attached error
  and the lookup of the container is its only call: nothing is stopped, removed,
  created or started.
\<close>

theorem attach_conflict_fails_fast:
  assumes "containers_get rt container_id = Inr c"
    and "\<exists>m \<in> set (case Mounts c of Some ms \<Rightarrow> ms | None \<Rightarrow> []). Source m = volume_name"
  shows "attach_volume_to_container rt container_id volume_name mount_point mode =
           ([ContainersGet container_id],
            Inl (Exception (''Volume '' @ volume_name @
                            '' is already attached to this container'')))"
  using assms
  by (auto simp: attach_volume_to_container_def attach_volume_except_def get_or_def
        list_ex_iff)

theorem attach_conflict_fails_fast_witness:
  "attach_volume_to_container (rt_ok web1) ''web-1'' ''/host'' ''/mnt'' ''rw'' =
     ([ContainersGet ''web-1''],
      Inl (Exception ''Volume /host is already attached to this container''))"
proof -
  have h1: "containers_get (rt_ok web1) ''web-1'' = Inr web1"
    by (simp add: rt_ok_def)
  have h2: "\<exists>m \<in> set (case Mounts web1 of Some ms \<Rightarrow> ms | None \<Rightarrow> []). Source m = ''/host''"
    by (simp add: web1_def host_data_def)
  from attach_conflict_fails_fast [OF h1 h2, of "''/mnt''" "''rw''"]
  show ?thesis by simp
qed

section \<open>Bind strings without a colon (C9)\<close>

text \<open>
  C9, as amended. A bind string with fewer than two colon-delimited segments, that
  is one without a colon, is not decoded and raises nothing: \<^verbatim>\<open>update_container\<close>
  skips it, and does with a volume list that holds it exactly what it does with the
  list without it.
\<close>

theorem malformed_volume_skipped:
  assumes "length (split_colon vol) < 2"
  shows "decode_bind vol = None \<and>
         update_container rt container_id (upd\<lparr>u_volumes := Some (before @ vol # after)\<rparr>) =
         update_container rt container_id (upd\<lparr>u_volumes := Some (before @ after)\<rparr>)"
proof -
  from assms have c: "CHR '':'' \<notin> set vol" by (simp add: segments_lt_2_iff)
  then have "decode_bind vol = None" by (simp add: decode_bind_None_iff)
  moreover have
    "update_container rt container_id (upd\<lparr>u_volumes := Some (before @ vol # after)\<rparr>) =
     update_container rt container_id (upd\<lparr>u_volumes := Some (before @ after)\<rparr>)"
    unfolding update_container_def by (simp only: target_config_drop [OF c])
  ultimately show ?thesis by blast
qed

theorem malformed_volume_skipped_witness:
  "length (split_colon ''data'') < 2 \<and> decode_bind ''data'' = None \<and>
   update_container (rt_ok web1) ''web-1''
     (no_updates\<lparr>u_volumes := Some [''/srv:/srv'', ''data'']\<rparr>) =
   update_container (rt_ok web1) ''web-1''
     (no_updates\<lparr>u_volumes := Some [''/srv:/srv'']\<rparr>)"
proof -
  have h: "length (split_colon ''data'') < 2" by simp
  from malformed_volume_skipped [OF h, where rt = "rt_ok web1" and container_id = "''web-1''"
      and upd = no_updates and before = "[''/srv:/srv'']" and after = "[]"]
  show ?thesis using h by simp
qed

text \<open>
  The claim as written fails: \<^verbatim>\<open>data\<close> has one segment, and the update that names
  it as its only volume succeeds, with no volume declared.
\<close>

theorem malformed_volume_counterexample:
  "length (split_colon ''data'') = 1 \<and>
   update_container (rt_ok web1) ''web-1'' (no_updates\<lparr>u_volumes := Some [''data'']\<rparr>) =
     ([ContainersGet ''web-1'', Stop, Remove,
       Run \<lparr> run_image = ''nginx:1.25'', run_name = ''web-1'',
             run_environment = [''MODE=prod''], run_volumes = None,
             run_ports = Some [(''80/tcp'', [''8080''])],
             run_network = Some ''frontend'' \<rparr>],
      Inr [(''status'', ''success''),
           (''message'', ''Container web-1 updated and recreated'')])"
  by (simp add: update_container_def target_config_def decode_bind_def run_args_of_def
        get_or_def rt_ok_def web1_def no_updates_def)

section \<open>Counting the containers by status\<close>

text \<open>The six keys stay the keys of the dictionary, so every read of a counter with
  \<open>the\<close> is a read of a key that is present.\<close>

lemma add_usage_status_counts: "status_counts (add_usage r acc) = status_counts acc"
  by (simp add: add_usage_def Let_def split: sum.splits option.splits)

lemma scan_container_status_counts:
  "status_counts (scan_container c acc) = count_status (lower (l_status c)) (status_counts acc)"
  by (simp add: scan_container_def Let_def add_usage_status_counts)

lemma count_status_bucket:
  assumes "dom counts = set status_keys"
  shows "count_status st counts =
           counts(status_bucket st \<mapsto> the (counts (status_bucket st)) + 1)"
proof (cases "st \<in> set status_keys")
  case True
  with assms obtain n where "counts st = Some n" by auto
  with True show ?thesis by (simp add: count_status_def status_bucket_def)
next
  case False
  with assms have "counts st = None" by auto
  with False show ?thesis by (simp add: count_status_def status_bucket_def)
qed

lemma status_bucket_key: "status_bucket st \<in> set status_keys"
  by (simp add: status_bucket_def status_keys_def)

lemma count_status_dom:
  assumes "dom counts = set status_keys"
  shows "dom (count_status st counts) = set status_keys"
  using assms status_bucket_key [of st] by (auto simp: count_status_bucket [OF assms])

lemma bucket_sum_update:
  assumes "k \<in> set status_keys"
  shows "bucket_sum (counts(k \<mapsto> the (counts k) + 1)) = bucket_sum counts + 1"
  using assms by (auto simp: bucket_sum_def status_keys_def)

lemma count_status_sum:
  assumes "dom counts = set status_keys"
  shows "bucket_sum (count_status st counts) = bucket_sum counts + 1"
  by (simp add: count_status_bucket [OF assms] bucket_sum_update [OF status_bucket_key])

lemma scan_containers_counts:
  assumes "dom (status_counts acc) = set status_keys"
  shows "dom (status_counts (scan_containers cs acc)) = set status_keys \<and>
         bucket_sum (status_counts (scan_containers cs acc)) =
           bucket_sum (status_counts acc) + int (length cs) \<and>
         (\<forall>k \<in> set status_keys.
            status_counts (scan_containers cs acc) k =
              Some (the (status_counts acc k) +
                    int (length (filter (\<lambda>c. status_bucket (lower (l_status c)) = k) cs))))"
  using assms
proof (induction cs arbitrary: acc)
  case Nil
  then have "status_counts acc k = Some (the (status_counts acc k))"
    if "k \<in> set status_keys" for k
    using that by (metis domD option.sel)
  with Nil show ?case by simp
next
  case (Cons c cs)
  let ?acc = "scan_container c acc"
  have d: "dom (status_counts ?acc) = set status_keys"
    by (simp add: scan_container_status_counts count_status_dom [OF Cons.prems])
  have s: "bucket_sum (status_counts ?acc) = bucket_sum (status_counts acc) + 1"
    by (simp add: scan_container_status_counts count_status_sum [OF Cons.prems])
  have k: "the (status_counts ?acc k) =
      the (status_counts acc k) + (if status_bucket (lower (l_status c)) = k then 1 else 0)" for k
    by (simp add: scan_container_status_counts count_status_bucket [OF Cons.prems])
  from Cons.IH [OF d] s k show ?case by simp
qed

lemma initial_dom: "dom (status_counts initial_totals) = set status_keys"
  by (auto simp: initial_totals_def status_keys_def split: if_splits)

lemma initial_sum: "bucket_sum (status_counts initial_totals) = 0"
  by (simp add: initial_totals_def bucket_sum_def)

lemma initial_zero: "k \<in> set status_keys \<Longrightarrow> status_counts initial_totals k = Some 0"
  by (auto simp: initial_totals_def status_keys_def)

lemma fleet_buckets: "map (\<lambda>c. status_bucket (lower (l_status c))) fleet =
      [''running'', ''exited'', ''other'', ''other'']"
  by code_simp

section \<open>The CPU percentage (C7)\<close>

text \<open>
  C7, as amended. For a running container whose statistics hold the four counters,
  the loop body adds to the CPU total the quotient of the CPU delta by the system
  delta, times the number of entries of the sample's per-CPU usage list (1 when the
  sample has no such list), times 100, when the system delta is positive, and adds
  exactly 0 when the system delta is zero or negative. The factor is not the number of
  online CPUs that the sample reports.
\<close>

theorem cpu_percent_formula:
  assumes "lower (l_status c) = ''running''"
    and "l_stats c = Inr st"
    and "cpu_total_usage st = Some cur_cpu" and "precpu_total_usage st = Some pre_cpu"
    and "system_cpu_usage st = Some cur_sys" and "precpu_system_cpu_usage st = Some pre_sys"
  shows "total_cpu (scan_container c acc) =
           total_cpu acc +
           (if cur_sys - pre_sys > 0
            then (real_of_int (cur_cpu - pre_cpu) / real_of_int (cur_sys - pre_sys)) *
                   real (case percpu_usage st of Some per_cpu \<Rightarrow> length per_cpu | None \<Rightarrow> 1) *
                   100
            else 0)"
  using assms
  by (simp add: scan_container_def add_usage_def get_or_def Let_def split: option.splits)

theorem cpu_percent_formula_witness:
  "total_cpu (scan_container \<lparr> l_status = ''running'', l_stats = Inr sample \<rparr> initial_totals) =
     200 \<and>
   total_cpu (scan_container \<lparr> l_status = ''running'', l_stats = Inr stale_sample \<rparr>
     initial_totals) = 0"
proof -
  have r: "lower (l_status \<lparr> l_status = ''running'', l_stats = Inr s \<rparr>) = ''running''" for s
    by (simp add: lower_def lower_char_def)
  have "total_cpu (scan_container \<lparr> l_status = ''running'', l_stats = Inr sample \<rparr>
          initial_totals) =
      total_cpu initial_totals +
           (if (100500::int) - 100000 > 0
            then (real_of_int (1500 - 1000) / real_of_int (100500 - 100000)) *
                   real (case percpu_usage sample of Some per_cpu \<Rightarrow> length per_cpu | None \<Rightarrow> 1) *
                   100
            else 0)"
    by (rule cpu_percent_formula [OF r]) (simp_all add: sample_def)
  then have a: "total_cpu (scan_container \<lparr> l_status = ''running'', l_stats = Inr sample \<rparr>
      initial_totals) = 200"
    by (simp add: initial_totals_def sample_def)
  have "total_cpu (scan_container \<lparr> l_status = ''running'', l_stats = Inr stale_sample \<rparr>
          initial_totals) =
      total_cpu initial_totals +
           (if (100000::int) - 100000 > 0
            then (real_of_int (1500 - 1000) / real_of_int (100000 - 100000)) *
                   real (case percpu_usage stale_sample of
                           Some per_cpu \<Rightarrow> length per_cpu | None \<Rightarrow> 1) *
                   100
            else 0)"
    by (rule cpu_percent_formula [OF r]) (simp_all add: sample_def stale_sample_def)
  then have b: "total_cpu (scan_container \<lparr> l_status = ''running'', l_stats = Inr stale_sample \<rparr>
      initial_totals) = 0"
    by (simp add: initial_totals_def)
  from a b show ?thesis by blast
qed

text \<open>
  The claim as written fails: the statistics hold the pair of the specification's
  example with two online CPUs and no per-CPU usage list, the specification's formula
  gives 200 and the code adds 100.
\<close>

theorem cpu_percent_counterexample:
  "cpu_total_usage no_percpu_sample = Some (s_cpu_total_usage example_cur) \<and>
   precpu_total_usage no_percpu_sample = Some (s_cpu_total_usage example_prev) \<and>
   system_cpu_usage no_percpu_sample = Some (s_system_cpu_usage example_cur) \<and>
   precpu_system_cpu_usage no_percpu_sample = Some (s_system_cpu_usage example_prev) \<and>
   online_cpus no_percpu_sample = Some (int (s_online_cpu_count example_cur)) \<and>
   spec_cpu_percent example_prev example_cur = 200 \<and>
   total_cpu (scan_container \<lparr> l_status = ''running'', l_stats = Inr no_percpu_sample \<rparr>
     initial_totals) = 100"
  by (simp add: no_percpu_sample_def sample_def example_cur_def example_prev_def
        spec_cpu_percent_def scan_container_def add_usage_def get_or_def Let_def
        initial_totals_def lower_def lower_char_def)

section \<open>The total and the buckets (C10)\<close>

text \<open>
  C10. For every list of containers, the total of the summary is the sum of its five
  status counts and of the counter \<^verbatim>\<open>other\<close>, which the summary does not show; and
  each of the six counters is the number of containers whose lower-cased status falls
  in its bucket, so every container is counted once, in one bucket.
\<close>

theorem containers_total_is_sum_of_buckets:
  "containers_total (get_system_info cs) =
     containers_running (get_system_info cs) + containers_stopped (get_system_info cs) +
     containers_exited (get_system_info cs) + containers_created (get_system_info cs) +
     containers_paused (get_system_info cs) +
     the (status_counts (scan_containers cs initial_totals) ''other'') \<and>
   (\<forall>k \<in> set status_keys.
      status_counts (scan_containers cs initial_totals) k =
        Some (int (length (filter (\<lambda>c. status_bucket (lower (l_status c)) = k) cs))))"
proof -
  note sc = scan_containers_counts [OF initial_dom, of cs]
  from sc have "bucket_sum (status_counts (scan_containers cs initial_totals)) = int (length cs)"
    by (simp add: initial_sum)
  then have total: "containers_total (get_system_info cs) =
     containers_running (get_system_info cs) + containers_stopped (get_system_info cs) +
     containers_exited (get_system_info cs) + containers_created (get_system_info cs) +
     containers_paused (get_system_info cs) +
     the (status_counts (scan_containers cs initial_totals) ''other'')"
    by (simp add: get_system_info_def Let_def bucket_sum_def)
  from sc have each: "\<forall>k \<in> set status_keys.
      status_counts (scan_containers cs initial_totals) k =
        Some (int (length (filter (\<lambda>c. status_bucket (lower (l_status c)) = k) cs)))"
    by (simp add: initial_zero)
  from total each show ?thesis by blast
qed

theorem containers_total_is_sum_of_buckets_witness:
  "containers_total (get_system_info fleet) = 4 \<and>
   containers_running (get_system_info fleet) + containers_stopped (get_system_info fleet) +
     containers_exited (get_system_info fleet) + containers_created (get_system_info fleet) +
     containers_paused (get_system_info fleet) +
     the (status_counts (scan_containers fleet initial_totals) ''other'') = 4 \<and>
   status_counts (scan_containers fleet initial_totals) ''other'' = Some 2 \<and>
   status_counts (scan_containers fleet initial_totals) ''exited'' = Some 1"
proof -
  have t: "containers_total (get_system_info fleet) = 4"
    by (simp add: get_system_info_def Let_def fleet_def)
  note lo = fleet_buckets
  have len: "length (filter (\<lambda>c. status_bucket (lower (l_status c)) = k) fleet) =
      length (filter (\<lambda>b. b = k) (map (\<lambda>c. status_bucket (lower (l_status c))) fleet))" for k
    by (simp add: filter_map comp_def)
  from containers_total_is_sum_of_buckets [of fleet]
  have s: "containers_total (get_system_info fleet) =
     containers_running (get_system_info fleet) + containers_stopped (get_system_info fleet) +
     containers_exited (get_system_info fleet) + containers_created (get_system_info fleet) +
     containers_paused (get_system_info fleet) +
     the (status_counts (scan_containers fleet initial_totals) ''other'')"
    and e: "\<forall>k \<in> set status_keys.
      status_counts (scan_containers fleet initial_totals) k =
        Some (int (length (filter (\<lambda>c. status_bucket (lower (l_status c)) = k) fleet)))"
    by blast+
  from e have "status_counts (scan_containers fleet initial_totals) ''other'' =
      Some (int (length (filter (\<lambda>c. status_bucket (lower (l_status c)) = ''other'') fleet)))"
    by (simp add: status_keys_def)
  then have o: "status_counts (scan_containers fleet initial_totals) ''other'' = Some 2"
    by (simp only: len lo) simp
  from e have "status_counts (scan_containers fleet initial_totals) ''exited'' =
      Some (int (length (filter (\<lambda>c. status_bucket (lower (l_status c)) = ''exited'') fleet)))"
    by (simp add: status_keys_def)
  then have x: "status_counts (scan_containers fleet initial_totals) ''exited'' = Some 1"
    by (simp only: len lo) simp
  from t s o x show ?thesis by simp
qed

end
